theory Spec2Isabelle
  imports Complex_Main
begin

section \<open>The drawing canvas of scribe-sync-canvas\<close>

text \<open>
  A shallow embedding of \<^verbatim>\<open>src/components/canvas/DigitalCanvas.tsx\<close>: the React
  component that captures strokes from mouse, touch and the pen feed, keeps the undo/redo
  history and rasterises the stroke log on an HTML canvas.

  Conventions of the embedding.
  \<^item> JavaScript numbers are modelled as \<^typ>\<open>real\<close> (coordinates, widths, scale) and the
    readings of \<^verbatim>\<open>Date.now()\<close> as \<^typ>\<open>int\<close>; IEEE rounding is not modelled. Division by
    zero differs between HOL and JavaScript, so statements about coordinates assume a
    non-zero scale.
  \<^item> The component's \<^verbatim>\<open>useState\<close> cells, the notebook context's stroke log and the
    callback slot of the pen interpreter are the fields of one record. A handler is a
    function from the state of the render it was created in to the state after its updates.
  \<^item> The 2D drawing context is modelled by the sequence of calls made on it.
  \<^item> A handler reads the \<^verbatim>\<open>strokes\<close> of its own render; React re-renders after a discrete
    event and then runs the effects whose dependencies changed. \<open>step\<close> is one such round.
  \<^item> Page navigation, saving, the demonstration input and the toasts are outside the model;
    the page identity is constant, so the page-change effect does not run.
\<close>

subsection \<open>Data model\<close>

text \<open>A point of a stroke: \<^verbatim>\<open>{ x, y, pressure, timestamp }\<close>.\<close>

record Point =
  pt_x :: real
  pt_y :: real
  pressure :: real
  timestamp :: int

text \<open>\<^verbatim>\<open>PenStroke\<close>: \<^verbatim>\<open>{ points, color, width, id }\<close>.\<close>

record PenStroke =
  points :: "Point list"
  color :: string
  width :: real
  stroke_id :: string

datatype Tool = Pen | Finger | Eraser | Hand

text \<open>
  The calls on \<^verbatim>\<open>CanvasRenderingContext2D\<close> that the component makes: property
  assignments and path operations.
\<close>

datatype ctx_cmd =
    SetFillStyle string
  | FillRect real real real real
  | SetStrokeStyle string
  | SetLineWidth real
  | SetLineCap string
  | SetLineJoin string
  | BeginPath
  | MoveTo real real
  | LineTo real real
  | Stroke

text \<open>
  The canvas element behind \<^verbatim>\<open>canvasRef.current\<close>: its raster size, the origin reported by
  \<^verbatim>\<open>getBoundingClientRect()\<close>, and whether \<^verbatim>\<open>getContext("2d")\<close> yields a context.
\<close>

record Surface =
  cv_width :: nat
  cv_height :: nat
  rect_left :: real
  rect_top :: real
  ctx2d :: bool

text \<open>The callback held by the pen interpreter's single slot (\<^verbatim>\<open>null\<close> is \<open>None\<close>).\<close>

datatype pen_callback = CanvasCallback

record canvas_state =
  canvasRef :: "Surface option"
  isDrawing :: bool
  isErasing :: bool
  tool :: Tool
  color_st :: string
  lineWidth :: real
  scale :: real
  strokes :: "PenStroke list"
  redoStack :: "PenStroke list"
  onNewStroke :: "pen_callback option"
  ctxLog :: "ctx_cmd list"

text \<open>The state of the first render: the \<^verbatim>\<open>useState\<close> initial values.\<close>

definition initial_state :: "Surface option \<Rightarrow> PenStroke list \<Rightarrow> canvas_state" where
  "initial_state cv pageLog =
     \<lparr> canvasRef = cv, isDrawing = False, isErasing = False, tool = Pen,
       color_st = ''#000000'', lineWidth = 2, scale = 1,
       strokes = pageLog, redoStack = [], onNewStroke = None, ctxLog = [] \<rparr>"

subsection \<open>The notebook context and the pen interpreter\<close>

text \<open>
  Modelled from the spec: \<^verbatim>\<open>addStroke\<close> of the notebook context
  (\<^verbatim>\<open>@/contexts/NotebookContext\<close>, not among the sources). The page collaborator exposes the
  active page's stroke log for reading and writing; adding a stroke appends it to that log.
\<close>

definition addStroke :: "PenStroke \<Rightarrow> canvas_state \<Rightarrow> canvas_state" where
  "addStroke st s = s\<lparr>strokes := strokes s @ [st]\<rparr>"

text \<open>
  Modelled from the spec: \<^verbatim>\<open>updateStrokes\<close> of the notebook context (not among the
  sources): it replaces the active page's log by the given sequence.
\<close>

definition updateStrokes :: "PenStroke list \<Rightarrow> canvas_state \<Rightarrow> canvas_state" where
  "updateStrokes xs s = s\<lparr>strokes := xs\<rparr>"

text \<open>
  Modelled from the spec: \<^verbatim>\<open>clearStrokes\<close> of the notebook context (not among the
  sources): it empties the active page's log. The redo stack is a \<^verbatim>\<open>useState\<close> cell of the
  canvas component, which the context cannot reach; the page identity changes on page
  navigation only.
\<close>

definition clearStrokes :: "canvas_state \<Rightarrow> canvas_state" where
  "clearStrokes s = s\<lparr>strokes := []\<rparr>"

text \<open>
  Modelled from the spec: \<^verbatim>\<open>PenDataInterpreter.setOnNewStroke\<close>
  (\<^verbatim>\<open>@/services/PenDataInterpreter\<close>, not among the sources): a registration point for a
  single callback; passing \<^verbatim>\<open>null\<close> unregisters.
\<close>

definition setOnNewStroke :: "pen_callback option \<Rightarrow> canvas_state \<Rightarrow> canvas_state" where
  "setOnNewStroke cb s = s\<lparr>onNewStroke := cb\<rparr>"

subsection \<open>Rendering\<close>

definition ctx_call :: "ctx_cmd list \<Rightarrow> canvas_state \<Rightarrow> canvas_state" where
  "ctx_call cmds s = s\<lparr>ctxLog := ctxLog s @ cmds\<rparr>"

text \<open>
  \<^verbatim>\<open>for (let i = 1; i < stroke.points.length; i++) ctx.lineTo(points[i].x, points[i].y)\<close>
\<close>

function lineToLoop :: "nat \<Rightarrow> Point list \<Rightarrow> canvas_state \<Rightarrow> canvas_state" where
  "lineToLoop i ps s =
     (if i < length ps
      then lineToLoop (i + 1) ps (ctx_call [LineTo (pt_x (ps ! i)) (pt_y (ps ! i))] s)
      else s)"
  by pat_completeness auto
termination
  by (relation "measure (\<lambda>(i, ps, s). length ps - i)") auto

text \<open>\<^verbatim>\<open>drawStroke\<close>: nothing without a canvas, a context or a point.\<close>

definition drawStroke :: "PenStroke \<Rightarrow> canvas_state \<Rightarrow> canvas_state" where
  "drawStroke st s =
     (case canvasRef s of
        None \<Rightarrow> s
      | Some c \<Rightarrow>
          if length (points st) = 0 then s
          else if \<not> ctx2d c then s
          else
            let s1 = ctx_call [SetStrokeStyle (color st), SetLineWidth (width st),
                               SetLineCap ''round'', SetLineJoin ''round''] s;
                s2 = ctx_call [BeginPath,
                               MoveTo (pt_x (points st ! 0)) (pt_y (points st ! 0))] s1;
                s3 = lineToLoop 1 (points st) s2
            in ctx_call [Stroke] s3)"

text \<open>
  \<^verbatim>\<open>for (let y = 40; y < canvas.height; y += 40) { beginPath; moveTo(0, y);
  lineTo(canvas.width, y); stroke }\<close>
\<close>

function gridLoop :: "nat \<Rightarrow> Surface \<Rightarrow> canvas_state \<Rightarrow> canvas_state" where
  "gridLoop y c s =
     (if y < cv_height c
      then gridLoop (y + 40) c
             (ctx_call [BeginPath, MoveTo 0 (real y), LineTo (real (cv_width c)) (real y),
                        Stroke] s)
      else s)"
  by pat_completeness auto
termination
  by (relation "measure (\<lambda>(y, c, s). cv_height c - y)") auto

text \<open>\<^verbatim>\<open>strokes.forEach(stroke => drawStroke(stroke))\<close>\<close>

fun forEach_drawStroke :: "PenStroke list \<Rightarrow> canvas_state \<Rightarrow> canvas_state" where
  "forEach_drawStroke [] s = s"
| "forEach_drawStroke (st # sts) s = forEach_drawStroke sts (drawStroke st s)"

text \<open>
  \<^verbatim>\<open>redrawCanvas\<close>. Its first argument is the \<^verbatim>\<open>strokes\<close> value captured by the closure: the
  log of the render in which this \<^verbatim>\<open>redrawCanvas\<close> was created.
\<close>

definition redrawCanvas :: "PenStroke list \<Rightarrow> canvas_state \<Rightarrow> canvas_state" where
  "redrawCanvas captured s =
     (case canvasRef s of
        None \<Rightarrow> s
      | Some c \<Rightarrow>
          if \<not> ctx2d c then s
          else
            let s1 = ctx_call [SetFillStyle ''#ffffff'',
                               FillRect 0 0 (real (cv_width c)) (real (cv_height c))] s;
                s2 = ctx_call [SetStrokeStyle ''#e5e7eb'', SetLineWidth 1] s1;
                s3 = gridLoop 40 c s2
            in forEach_drawStroke captured s3)"

subsection \<open>Pointer and touch input\<close>

text \<open>
  \<^verbatim>\<open>Number.prototype.toString\<close> on an integer clock reading: its decimal digits, with a
  minus sign for a negative value.
\<close>

fun digits :: "nat \<Rightarrow> string" where
  "digits n = (if n < 10 then [''0123456789'' ! n]
               else digits (n div 10) @ [''0123456789'' ! (n mod 10)])"

definition toString :: "int \<Rightarrow> string" where
  "toString i = (if i < 0 then CHR ''-'' # digits (nat (- i)) else digits (nat i))"

text \<open>
  A mouse event carries \<^verbatim>\<open>clientX\<close> and \<^verbatim>\<open>clientY\<close>. A touch event is given by the client
  coordinates of \<^verbatim>\<open>e.touches[0]\<close>, which a touchstart or touchmove event always has.
\<close>

record pointer_event =
  clientX :: real
  clientY :: real

text \<open>
  \<^verbatim>\<open>startDrawing\<close> (mouse down). \<open>now_pt\<close> and \<open>now_id\<close> are the two readings of
  \<^verbatim>\<open>Date.now()\<close>, taken for the point's timestamp and for the stroke's id in this order.
\<close>

definition startDrawing :: "pointer_event \<Rightarrow> int \<Rightarrow> int \<Rightarrow> canvas_state \<Rightarrow> canvas_state" where
  "startDrawing e now_pt now_id s =
     (if tool s = Hand then s
      else case canvasRef s of
        None \<Rightarrow> s
      | Some c \<Rightarrow>
          if \<not> ctx2d c then s
          else
            let x = (clientX e - rect_left c) / scale s;
                y = (clientY e - rect_top c) / scale s;
                s1 = ctx_call [BeginPath, MoveTo x y] s;
                newStroke =
                  \<lparr> points = [\<lparr> pt_x = x, pt_y = y, pressure = 1, timestamp = now_pt \<rparr>],
                    color = (if isErasing s then ''#ffffff'' else color_st s),
                    width = (if isErasing s then lineWidth s * 3 else lineWidth s),
                    stroke_id = toString now_id \<rparr>;
                s2 = addStroke newStroke s1;
                s3 = s2\<lparr>redoStack := []\<rparr>
            in s3\<lparr>isDrawing := True\<rparr>)"

text \<open>
  The update of the current stroke shared by \<^verbatim>\<open>draw\<close> and \<^verbatim>\<open>handleTouchMove\<close>: copy the
  array, push the point onto its last stroke if there is one, and store the copy.
\<close>

definition pushPoint :: "Point \<Rightarrow> canvas_state \<Rightarrow> canvas_state" where
  "pushPoint p s =
     (if strokes s = [] then s
      else
        let currentStroke = last (strokes s);
            currentStroke' = currentStroke\<lparr>points := points currentStroke @ [p]\<rparr>
        in updateStrokes (butlast (strokes s) @ [currentStroke']) s)"

text \<open>\<^verbatim>\<open>draw\<close> (mouse move).\<close>

definition draw :: "pointer_event \<Rightarrow> int \<Rightarrow> canvas_state \<Rightarrow> canvas_state" where
  "draw e now s =
     (if \<not> isDrawing s \<or> tool s = Hand then s
      else case canvasRef s of
        None \<Rightarrow> s
      | Some c \<Rightarrow>
          if \<not> ctx2d c then s
          else
            let x = (clientX e - rect_left c) / scale s;
                y = (clientY e - rect_top c) / scale s;
                s1 = ctx_call [SetStrokeStyle (if isErasing s then ''#ffffff'' else color_st s),
                               SetLineWidth (if isErasing s then lineWidth s * 3 else lineWidth s),
                               SetLineCap ''round'', SetLineJoin ''round''] s;
                s2 = ctx_call [LineTo x y, Stroke] s1
            in pushPoint \<lparr> pt_x = x, pt_y = y, pressure = 1, timestamp = now \<rparr> s2)"

text \<open>\<^verbatim>\<open>handleTouchStart\<close>.\<close>

definition handleTouchStart :: "pointer_event \<Rightarrow> int \<Rightarrow> int \<Rightarrow> canvas_state \<Rightarrow> canvas_state" where
  "handleTouchStart touch now_pt now_id s =
     (if tool s \<noteq> Finger then s
      else case canvasRef s of
        None \<Rightarrow> s
      | Some c \<Rightarrow>
          if \<not> ctx2d c then s
          else
            let x = (clientX touch - rect_left c) / scale s;
                y = (clientY touch - rect_top c) / scale s;
                s1 = ctx_call [BeginPath, MoveTo x y] s;
                newStroke =
                  \<lparr> points = [\<lparr> pt_x = x, pt_y = y, pressure = 1, timestamp = now_pt \<rparr>],
                    color = color_st s,
                    width = lineWidth s,
                    stroke_id = toString now_id \<rparr>;
                s2 = addStroke newStroke s1;
                s3 = s2\<lparr>redoStack := []\<rparr>
            in s3\<lparr>isDrawing := True\<rparr>)"

text \<open>\<^verbatim>\<open>handleTouchMove\<close>.\<close>

definition handleTouchMove :: "pointer_event \<Rightarrow> int \<Rightarrow> canvas_state \<Rightarrow> canvas_state" where
  "handleTouchMove touch now s =
     (if \<not> isDrawing s \<or> tool s \<noteq> Finger then s
      else case canvasRef s of
        None \<Rightarrow> s
      | Some c \<Rightarrow>
          if \<not> ctx2d c then s
          else
            let x = (clientX touch - rect_left c) / scale s;
                y = (clientY touch - rect_top c) / scale s;
                s1 = ctx_call [SetStrokeStyle (color_st s), SetLineWidth (lineWidth s),
                               SetLineCap ''round'', SetLineJoin ''round''] s;
                s2 = ctx_call [LineTo x y, Stroke] s1
            in pushPoint \<lparr> pt_x = x, pt_y = y, pressure = 1, timestamp = now \<rparr> s2)"

text \<open>\<^verbatim>\<open>handleTouchEnd\<close> and \<^verbatim>\<open>stopDrawing\<close>.\<close>

definition stopDrawing :: "canvas_state \<Rightarrow> canvas_state" where
  "stopDrawing s = s\<lparr>isDrawing := False\<rparr>"

definition handleTouchEnd :: "canvas_state \<Rightarrow> canvas_state" where
  "handleTouchEnd s = s\<lparr>isDrawing := False\<rparr>"

subsection \<open>History, zoom, tools\<close>

text \<open>
  \<^verbatim>\<open>handleUndo\<close>. The closing \<^verbatim>\<open>redrawCanvas()\<close> is the one of the handler's own render, so
  it draws the log as it was before the update.
\<close>

definition handleUndo :: "canvas_state \<Rightarrow> canvas_state" where
  "handleUndo s =
     (if length (strokes s) = 0 then s
      else
        let lastStroke = last (strokes s);
            newStrokes = butlast (strokes s);
            s1 = updateStrokes newStrokes s;
            s2 = s1\<lparr>redoStack := redoStack s1 @ [lastStroke]\<rparr>
        in redrawCanvas (strokes s) s2)"

text \<open>\<^verbatim>\<open>handleRedo\<close>.\<close>

definition handleRedo :: "canvas_state \<Rightarrow> canvas_state" where
  "handleRedo s =
     (if length (redoStack s) = 0 then s
      else
        let strokeToRedo = last (redoStack s);
            s1 = s\<lparr>redoStack := butlast (redoStack s)\<rparr>;
            s2 = updateStrokes (strokes s @ [strokeToRedo]) s1
        in redrawCanvas (strokes s) s2)"

text \<open>\<^verbatim>\<open>handleZoomIn\<close>: \<^verbatim>\<open>Math.min(prev + 0.1, 3)\<close>; \<^verbatim>\<open>handleZoomOut\<close>:
  \<^verbatim>\<open>Math.max(prev - 0.1, 0.5)\<close>.\<close>

definition handleZoomIn :: "canvas_state \<Rightarrow> canvas_state" where
  "handleZoomIn s = s\<lparr>scale := min (scale s + 0.1) 3\<rparr>"

definition handleZoomOut :: "canvas_state \<Rightarrow> canvas_state" where
  "handleZoomOut s = s\<lparr>scale := max (scale s - 0.1) 0.5\<rparr>"

text \<open>\<^verbatim>\<open>handleToolChange\<close> (the toast is not part of the model).\<close>

definition handleToolChange :: "Tool \<Rightarrow> canvas_state \<Rightarrow> canvas_state" where
  "handleToolChange newTool s = s\<lparr>tool := newTool, isErasing := (newTool = Eraser)\<rparr>"

text \<open>\<^verbatim>\<open>handleClear\<close> (the toast is not part of the model).\<close>

definition handleClear :: "canvas_state \<Rightarrow> canvas_state" where
  "handleClear s =
     (case canvasRef s of
        None \<Rightarrow> s
      | Some c \<Rightarrow> redrawCanvas (strokes s) (clearStrokes s))"

subsection \<open>The pen feed and the effects\<close>

text \<open>
  The callback registered with the pen interpreter:
  \<^verbatim>\<open>(stroke) => { addStroke(stroke); drawStroke(stroke); }\<close>.
\<close>

definition penCallback :: "PenStroke \<Rightarrow> canvas_state \<Rightarrow> canvas_state" where
  "penCallback st s = drawStroke st (addStroke st s)"

text \<open>
  \<^verbatim>\<open>resizeCanvas\<close> of the mount effect. \<open>container\<close> is the client size of the canvas's
  parent element, \<open>None\<close> when it has no parent; \<open>captured\<close> is the log of the render that
  created the closure.
\<close>

definition resizeCanvas :: "(nat \<times> nat) option \<Rightarrow> PenStroke list \<Rightarrow> canvas_state \<Rightarrow> canvas_state" where
  "resizeCanvas container captured s =
     (case container of
        None \<Rightarrow> s
      | Some (w, h) \<Rightarrow>
          redrawCanvas captured
            (s\<lparr>canvasRef := map_option (\<lambda>c. c\<lparr>cv_width := w, cv_height := h\<rparr>) (canvasRef s)\<rparr>))"

text \<open>
  The mount effect: without a canvas or a context it returns before registering anything;
  otherwise it resizes, redraws and registers the pen callback. Its cleanup unregisters.
\<close>

definition mountEffect :: "(nat \<times> nat) option \<Rightarrow> canvas_state \<Rightarrow> canvas_state" where
  "mountEffect container s =
     (case canvasRef s of
        None \<Rightarrow> s
      | Some c \<Rightarrow>
          if \<not> ctx2d c then s
          else
            let s1 = resizeCanvas container (strokes s) s;
                s2 = redrawCanvas (strokes s) s1
            in setOnNewStroke (Some CanvasCallback) s2)"

definition cleanupEffect :: "canvas_state \<Rightarrow> canvas_state" where
  "cleanupEffect s = setOnNewStroke None s"

text \<open>
  Modelled from the spec: the pen interpreter delivering a completed stroke (the interpreter
  is not among the sources): it invokes the registered callback once with the stroke, and
  does nothing when no callback is registered.
\<close>

definition penEmit :: "PenStroke \<Rightarrow> canvas_state \<Rightarrow> canvas_state" where
  "penEmit st s =
     (case onNewStroke s of
        None \<Rightarrow> s
      | Some CanvasCallback \<Rightarrow> penCallback st s)"

text \<open>
  \<^verbatim>\<open>useEffect(() => { redrawCanvas(); }, [strokes])\<close>: after a render in which the log
  differs from the previous render's, the canvas is redrawn from the new log. Every handler
  that changes the log hands the context a fresh array, so the dependency changes whenever
  the log's value does; a round that leaves the value unchanged is taken not to re-run the
  effect.
\<close>

definition strokesEffect :: "canvas_state \<Rightarrow> canvas_state \<Rightarrow> canvas_state" where
  "strokesEffect before s =
     (if strokes s \<noteq> strokes before then redrawCanvas (strokes s) s else s)"

text \<open>
  The events of the component: the canvas's mouse and touch listeners (with the clock
  readings their handlers take), the toolbar buttons, the colour input
  (\<^verbatim>\<open>setColor(e.target.value)\<close>), the width select (\<^verbatim>\<open>setLineWidth(Number(e.target.value))\<close>)
  and a stroke delivered by the pen feed.
\<close>

datatype event =
    MouseDown pointer_event int int
  | MouseMove pointer_event int
  | MouseUp
  | MouseLeave
  | TouchStart pointer_event int int
  | TouchMove pointer_event int
  | TouchEnd
  | Undo
  | Redo
  | ZoomIn
  | ZoomOut
  | ToolChange Tool
  | SetColor string
  | SetLineWidthTo real
  | Clear
  | PenFeed PenStroke

fun handle :: "event \<Rightarrow> canvas_state \<Rightarrow> canvas_state" where
  "handle (MouseDown e t1 t2) s = startDrawing e t1 t2 s"
| "handle (MouseMove e t) s = draw e t s"
| "handle MouseUp s = stopDrawing s"
| "handle MouseLeave s = stopDrawing s"
| "handle (TouchStart e t1 t2) s = handleTouchStart e t1 t2 s"
| "handle (TouchMove e t) s = handleTouchMove e t s"
| "handle TouchEnd s = handleTouchEnd s"
| "handle Undo s = handleUndo s"
| "handle Redo s = handleRedo s"
| "handle ZoomIn s = handleZoomIn s"
| "handle ZoomOut s = handleZoomOut s"
| "handle (ToolChange t) s = handleToolChange t s"
| "handle (SetColor c) s = s\<lparr>color_st := c\<rparr>"
| "handle (SetLineWidthTo w) s = s\<lparr>lineWidth := w\<rparr>"
| "handle Clear s = handleClear s"
| "handle (PenFeed st) s = penEmit st s"

text \<open>One round: the handler of the event, then the re-render with its effect.\<close>

definition step :: "event \<Rightarrow> canvas_state \<Rightarrow> canvas_state" where
  "step ev s = strokesEffect s (handle ev s)"

fun run :: "event list \<Rightarrow> canvas_state \<Rightarrow> canvas_state" where
  "run [] s = s"
| "run (ev # evs) s = run evs (step ev s)"

subsection \<open>The rendering contract\<close>

text \<open>
  The specification's description of rendering, as the calls it amounts to. A stroke is
  drawn with round caps and joins, as one path through its points in order: straight
  segments between consecutive points. A stroke without points draws nothing.
\<close>

definition spec_strokePath :: "PenStroke \<Rightarrow> ctx_cmd list" where
  "spec_strokePath st =
     (case points st of
        [] \<Rightarrow> []
      | p # ps \<Rightarrow>
          [SetStrokeStyle (color st), SetLineWidth (width st),
           SetLineCap ''round'', SetLineJoin ''round'',
           BeginPath, MoveTo (pt_x p) (pt_y p)]
          @ map (\<lambda>q. LineTo (pt_x q) (pt_y q)) ps
          @ [Stroke])"

text \<open>One horizontal ruling line across the surface at height \<open>y\<close>.\<close>

definition spec_gridLine :: "Surface \<Rightarrow> nat \<Rightarrow> ctx_cmd list" where
  "spec_gridLine c y = [BeginPath, MoveTo 0 (real y), LineTo (real (cv_width c)) (real y), Stroke]"

text \<open>
  A full redraw: clear to the background colour, rule a light gray line of width 1 at every
  multiple of 40 below the surface's height, then draw the strokes in log order.
\<close>

definition spec_fullRedraw :: "Surface \<Rightarrow> PenStroke list \<Rightarrow> ctx_cmd list" where
  "spec_fullRedraw c xs =
     [SetFillStyle ''#ffffff'', FillRect 0 0 (real (cv_width c)) (real (cv_height c)),
      SetStrokeStyle ''#e5e7eb'', SetLineWidth 1]
     @ concat (map (spec_gridLine c) (filter (\<lambda>y. 40 dvd y) [1..<cv_height c]))
     @ concat (map spec_strokePath xs)"

text \<open>What a redraw and a single stroke emit on a surface that may be absent.\<close>

definition redrawCmds :: "Surface option \<Rightarrow> PenStroke list \<Rightarrow> ctx_cmd list" where
  "redrawCmds cv xs =
     (case cv of None \<Rightarrow> [] | Some c \<Rightarrow> if ctx2d c then spec_fullRedraw c xs else [])"

definition strokeCmds :: "Surface option \<Rightarrow> PenStroke \<Rightarrow> ctx_cmd list" where
  "strokeCmds cv st =
     (case cv of None \<Rightarrow> [] | Some c \<Rightarrow> if ctx2d c then spec_strokePath st else [])"

text \<open>
  The invariant of the viewport state: the eraser flag follows the tool, and the scale lies
  in its range.
\<close>

definition canvas_inv :: "canvas_state \<Rightarrow> bool" where
  "canvas_inv s \<longleftrightarrow> isErasing s = (tool s = Eraser) \<and> 1 / 2 \<le> scale s \<and> scale s \<le> 3"

text \<open>The history as a pair: the stroke log and the redo stack.\<close>

definition hist :: "canvas_state \<Rightarrow> PenStroke list \<times> PenStroke list" where
  "hist s = (strokes s, redoStack s)"

fun undo_h :: "'a list \<times> 'a list \<Rightarrow> 'a list \<times> 'a list" where
  "undo_h (l, r) = (if l = [] then (l, r) else (butlast l, r @ [last l]))"

fun redo_h :: "'a list \<times> 'a list \<Rightarrow> 'a list \<times> 'a list" where
  "redo_h (l, r) = (if r = [] then (l, r) else (l @ [last r], butlast r))"

subsection \<open>Sample inputs\<close>

definition sample_surface :: Surface where
  "sample_surface = \<lparr> cv_width = 300, cv_height = 90, rect_left = 8, rect_top = 16, ctx2d = True \<rparr>"

definition sample_stroke :: "string \<Rightarrow> real \<Rightarrow> PenStroke" where
  "sample_stroke name x0 =
     \<lparr> points = [\<lparr> pt_x = x0, pt_y = 10, pressure = 1, timestamp = 0 \<rparr>,
                 \<lparr> pt_x = x0 + 10, pt_y = 20, pressure = 1, timestamp = 5 \<rparr>],
       color = ''#000000'', width = 2, stroke_id = name \<rparr>"

section \<open>Auxiliary lemmas\<close>

declare lineToLoop.simps [simp del] gridLoop.simps [simp del]

lemma ctx_call_ctx_call: "ctx_call b (ctx_call a s) = ctx_call (a @ b) s"
  by (simp add: ctx_call_def)

lemma ctx_call_Nil: "ctx_call [] s = s"
  by (simp add: ctx_call_def)

lemma canvasRef_ctx_call: "canvasRef (ctx_call a s) = canvasRef s"
  by (simp add: ctx_call_def)

lemma lineToLoop_eq:
  "lineToLoop i ps s = ctx_call (map (\<lambda>q. LineTo (pt_x q) (pt_y q)) (drop i ps)) s"
proof (induction i ps s rule: lineToLoop.induct)
  case (1 i ps s)
  show ?case
  proof (cases "i < length ps")
    case True
    then have "drop i ps = ps ! i # drop (Suc i) ps"
      by (simp add: Cons_nth_drop_Suc)
    with True 1 show ?thesis
      by (simp add: ctx_call_ctx_call lineToLoop.simps [of i])
  next
    case False
    then show ?thesis by (simp add: ctx_call_Nil lineToLoop.simps [of i])
  qed
qed

lemma drawStroke_eq:
  assumes "canvasRef s = Some c" and "ctx2d c"
  shows "drawStroke st s = ctx_call (spec_strokePath st) s"
proof (cases "points st")
  case Nil
  with assms show ?thesis
    by (simp add: drawStroke_def spec_strokePath_def ctx_call_Nil)
next
  case (Cons p ps)
  with assms show ?thesis
    by (simp add: drawStroke_def spec_strokePath_def lineToLoop_eq ctx_call_ctx_call Let_def)
qed

lemma forEach_drawStroke_eq:
  assumes "canvasRef s = Some c" and "ctx2d c"
  shows "forEach_drawStroke xs s = ctx_call (concat (map spec_strokePath xs)) s"
  using assms
proof (induction xs arbitrary: s)
  case Nil
  then show ?case by (simp add: ctx_call_Nil)
next
  case (Cons st xs)
  from Cons.prems have "canvasRef (ctx_call (spec_strokePath st) s) = Some c"
    by (simp add: canvasRef_ctx_call)
  with Cons show ?case
    by (simp add: drawStroke_eq ctx_call_ctx_call)
qed

lemma filter_dvd_gap:
  assumes "40 dvd (y::nat)"
  shows "filter (\<lambda>z. 40 dvd z) [Suc y..<h] = filter (\<lambda>z. 40 dvd z) [y + 40..<h]"
proof -
  have none: "\<And>z. y < z \<Longrightarrow> z < y + 40 \<Longrightarrow> \<not> 40 dvd z"
    using assms by presburger
  show ?thesis
  proof (cases "y + 40 \<le> h")
    case True
    then have "[Suc y..<h] = [Suc y..<y + 40] @ [y + 40..<h]"
      using upt_add_eq_append [of "Suc y" "y + 40" "h - (y + 40)"] by simp
    moreover have "filter (\<lambda>z. 40 dvd z) [Suc y..<y + 40] = []"
      using none by (auto simp: filter_empty_conv)
    ultimately show ?thesis by simp
  next
    case False
    then have "filter (\<lambda>z. 40 dvd z) [Suc y..<h] = []"
      using none by (auto simp: filter_empty_conv)
    with False show ?thesis by simp
  qed
qed

lemma gridLoop_eq:
  assumes "40 dvd y"
  shows "gridLoop y c s =
         ctx_call (concat (map (spec_gridLine c) (filter (\<lambda>z. 40 dvd z) [y..<cv_height c]))) s"
  using assms
proof (induction y c s rule: gridLoop.induct)
  case (1 y c s)
  show ?case
  proof (cases "y < cv_height c")
    case True
    have d: "40 dvd (y + 40)" using "1.prems" by simp
    have "[y..<cv_height c] = y # [Suc y..<cv_height c]"
      using True by (simp add: upt_conv_Cons)
    then have "filter (\<lambda>z. 40 dvd z) [y..<cv_height c]
               = y # filter (\<lambda>z. 40 dvd z) [y + 40..<cv_height c]"
      using "1.prems" filter_dvd_gap [OF "1.prems"] by simp
    with True "1.IH" [OF True d] show ?thesis
      by (simp add: ctx_call_ctx_call spec_gridLine_def gridLoop.simps [of y])
  next
    case False
    then show ?thesis by (simp add: ctx_call_Nil gridLoop.simps [of y])
  qed
qed


lemma filter_dvd_from_1: "filter (\<lambda>z. 40 dvd z) [Suc 0..<h] = filter (\<lambda>z. 40 dvd z) [40..<h]"
  using filter_dvd_gap [of 0 h] by simp

lemma redrawCanvas_mounted:
  assumes "canvasRef s = Some c" and "ctx2d c"
  shows "redrawCanvas xs s = ctx_call (spec_fullRedraw c xs) s"
proof -
  let ?s2 = "ctx_call [SetFillStyle ''#ffffff'',
                       FillRect 0 0 (real (cv_width c)) (real (cv_height c)),
                       SetStrokeStyle ''#e5e7eb'', SetLineWidth 1] s"
  have g: "gridLoop 40 c ?s2 =
           ctx_call (concat (map (spec_gridLine c) (filter (\<lambda>z. 40 dvd z) [40..<cv_height c]))) ?s2"
    by (rule gridLoop_eq) simp
  have cv: "canvasRef (gridLoop 40 c ?s2) = Some c"
    using assms by (simp add: g canvasRef_ctx_call)
  show ?thesis
    using assms
    by (simp add: redrawCanvas_def Let_def ctx_call_ctx_call forEach_drawStroke_eq [OF cv]
        spec_fullRedraw_def filter_dvd_from_1)
      (simp add: g ctx_call_ctx_call)
qed

lemma redrawCanvas_eq: "redrawCanvas xs s = ctx_call (redrawCmds (canvasRef s) xs) s"
proof (cases "canvasRef s")
  case None
  then show ?thesis by (simp add: redrawCanvas_def redrawCmds_def ctx_call_Nil)
next
  case (Some c)
  show ?thesis
  proof (cases "ctx2d c")
    case True
    with Some show ?thesis by (simp add: redrawCanvas_mounted redrawCmds_def)
  next
    case False
    with Some show ?thesis by (simp add: redrawCanvas_def redrawCmds_def ctx_call_Nil)
  qed
qed

lemma drawStroke_total: "drawStroke st s = ctx_call (strokeCmds (canvasRef s) st) s"
proof (cases "canvasRef s")
  case None
  then show ?thesis by (simp add: drawStroke_def strokeCmds_def ctx_call_Nil)
next
  case (Some c)
  show ?thesis
  proof (cases "ctx2d c")
    case True
    with Some show ?thesis by (simp add: drawStroke_eq strokeCmds_def)
  next
    case False
    with Some show ?thesis
      by (simp add: drawStroke_def strokeCmds_def ctx_call_Nil spec_strokePath_def)
  qed
qed

lemma handleUndo_eq:
  "handleUndo s =
     (if strokes s = [] then s
      else s\<lparr>strokes := butlast (strokes s),
             redoStack := redoStack s @ [last (strokes s)],
             ctxLog := ctxLog s @ redrawCmds (canvasRef s) (strokes s)\<rparr>)"
  by (simp add: handleUndo_def Let_def updateStrokes_def redrawCanvas_eq ctx_call_def)

lemma handleRedo_eq:
  "handleRedo s =
     (if redoStack s = [] then s
      else s\<lparr>strokes := strokes s @ [last (redoStack s)],
             redoStack := butlast (redoStack s),
             ctxLog := ctxLog s @ redrawCmds (canvasRef s) (strokes s)\<rparr>)"
  by (simp add: handleRedo_def Let_def updateStrokes_def redrawCanvas_eq ctx_call_def)

lemma butlast_neq: "xs \<noteq> [] \<Longrightarrow> butlast xs \<noteq> xs"
  by (metis length_butlast diff_less length_greater_0_conv less_irrefl zero_less_one)

lemma step_Undo_eq:
  "step Undo s =
     (if strokes s = [] then s
      else s\<lparr>strokes := butlast (strokes s),
             redoStack := redoStack s @ [last (strokes s)],
             ctxLog := ctxLog s @ redrawCmds (canvasRef s) (strokes s)
                       @ redrawCmds (canvasRef s) (butlast (strokes s))\<rparr>)"
  by (simp add: step_def strokesEffect_def handleUndo_eq redrawCanvas_eq ctx_call_def butlast_neq)

lemma step_Redo_eq:
  "step Redo s =
     (if redoStack s = [] then s
      else s\<lparr>strokes := strokes s @ [last (redoStack s)],
             redoStack := butlast (redoStack s),
             ctxLog := ctxLog s @ redrawCmds (canvasRef s) (strokes s)
                       @ redrawCmds (canvasRef s) (strokes s @ [last (redoStack s)])\<rparr>)"
  by (simp add: step_def strokesEffect_def handleRedo_eq redrawCanvas_eq ctx_call_def)


lemma hist_step_Undo: "hist (step Undo s) = undo_h (hist s)"
  by (simp add: hist_def step_Undo_eq)

lemma hist_step_Redo: "hist (step Redo s) = redo_h (hist s)"
  by (simp add: hist_def step_Redo_eq)

lemma hist_undos: "hist ((step Undo ^^ n) s) = (undo_h ^^ n) (hist s)"
  by (induction n) (simp_all add: hist_step_Undo)

lemma hist_redos: "hist ((step Redo ^^ n) s) = (redo_h ^^ n) (hist s)"
  by (induction n) (simp_all add: hist_step_Redo)

lemma undo_h_funpow:
  "(undo_h ^^ n) (l, r) = (take (length l - n) l, r @ rev (drop (length l - n) l))"
proof (induction n arbitrary: l r)
  case 0
  then show ?case by simp
next
  case (Suc n)
  show ?case
  proof (cases l rule: rev_cases)
    case Nil
    have "(undo_h ^^ Suc n) ([], r) = (undo_h ^^ n) (undo_h ([], r))"
      by (simp only: funpow_Suc_right o_apply)
    with Nil Suc.IH [of "[]" r] show ?thesis by simp
  next
    case (snoc xs x)
    have "(undo_h ^^ Suc n) (l, r) = (undo_h ^^ n) (undo_h (l, r))"
      by (simp only: funpow_Suc_right o_apply)
    also have "\<dots> = (undo_h ^^ n) (xs, r @ [x])"
      using snoc by simp
    also have "\<dots> = (take (length xs - n) xs, (r @ [x]) @ rev (drop (length xs - n) xs))"
      by (rule Suc.IH)
    finally show ?thesis using snoc by simp
  qed
qed

lemma redo_h_funpow:
  "(redo_h ^^ n) (l, r) = (l @ rev (drop (length r - n) r), take (length r - n) r)"
proof (induction n arbitrary: l r)
  case 0
  then show ?case by simp
next
  case (Suc n)
  show ?case
  proof (cases r rule: rev_cases)
    case Nil
    have "(redo_h ^^ Suc n) (l, []) = (redo_h ^^ n) (redo_h (l, []))"
      by (simp only: funpow_Suc_right o_apply)
    with Nil Suc.IH [of l "[]"] show ?thesis by simp
  next
    case (snoc xs x)
    have "(redo_h ^^ Suc n) (l, r) = (redo_h ^^ n) (redo_h (l, r))"
      by (simp only: funpow_Suc_right o_apply)
    also have "\<dots> = (redo_h ^^ n) (l @ [x], xs)"
      using snoc by simp
    also have "\<dots> = ((l @ [x]) @ rev (drop (length xs - n) xs), take (length xs - n) xs)"
      by (rule Suc.IH)
    finally show ?thesis using snoc by simp
  qed
qed

lemma undo_redo_h:
  "(redo_h ^^ n) ((undo_h ^^ n) (l, r)) = (l, r) \<longleftrightarrow> n \<le> length l \<or> r = []"
proof (cases "n \<le> length l")
  case True
  then have "length r + (length l - (length l - n)) - n = length r"
    by simp
  with True show ?thesis
    by (simp add: undo_h_funpow redo_h_funpow)
next
  case False
  then have gt: "length l < n" by simp
  show ?thesis
  proof (cases "r = []")
    case True
    with gt show ?thesis by (simp add: undo_h_funpow redo_h_funpow)
  next
    case False
    let ?res = "(redo_h ^^ n) ((undo_h ^^ n) (l, r))"
    have "length (fst ?res) = length r + length l - (length r + length l - n)"
      using gt by (simp add: undo_h_funpow redo_h_funpow)
    moreover have "length l < length r + length l - (length r + length l - n)"
      using gt False by (cases r) auto
    ultimately have "fst ?res \<noteq> l" by auto
    then have "?res \<noteq> (l, r)" by auto
    with gt False show ?thesis by simp
  qed
qed

lemma strokesEffect_eq:
  "strokesEffect before s =
     (if strokes s \<noteq> strokes before
      then s\<lparr>ctxLog := ctxLog s @ redrawCmds (canvasRef s) (strokes s)\<rparr> else s)"
  by (simp add: strokesEffect_def redrawCanvas_eq ctx_call_def)

lemma pushPoint_view:
  "isErasing (pushPoint p s) = isErasing s \<and> tool (pushPoint p s) = tool s \<and>
   scale (pushPoint p s) = scale s"
  by (simp add: pushPoint_def Let_def updateStrokes_def)

lemma canvas_inv_handle:
  assumes "canvas_inv s"
  shows "canvas_inv (handle ev s)"
proof (cases ev)
  case (MouseDown e t1 t2)
  with assms show ?thesis
    by (simp add: canvas_inv_def startDrawing_def Let_def addStroke_def ctx_call_def
        split: option.splits)
next
  case (MouseMove e t)
  with assms show ?thesis
    by (simp add: canvas_inv_def draw_def Let_def pushPoint_view ctx_call_def
        split: option.splits)
next
  case (TouchStart e t1 t2)
  with assms show ?thesis
    by (simp add: canvas_inv_def handleTouchStart_def Let_def addStroke_def ctx_call_def
        split: option.splits)
next
  case (TouchMove e t)
  with assms show ?thesis
    by (simp add: canvas_inv_def handleTouchMove_def Let_def pushPoint_view ctx_call_def
        split: option.splits)
next
  case Undo
  with assms show ?thesis
    by (simp add: canvas_inv_def handleUndo_eq)
next
  case Redo
  with assms show ?thesis
    by (simp add: canvas_inv_def handleRedo_eq)
next
  case ZoomIn
  with assms show ?thesis
    by (simp add: canvas_inv_def handleZoomIn_def)
next
  case ZoomOut
  with assms show ?thesis
    by (simp add: canvas_inv_def handleZoomOut_def)
next
  case Clear
  with assms show ?thesis
    by (simp add: canvas_inv_def handleClear_def clearStrokes_def redrawCanvas_eq ctx_call_def
        split: option.splits)
next
  case (PenFeed st)
  with assms show ?thesis
    by (simp add: canvas_inv_def penEmit_def penCallback_def addStroke_def drawStroke_total
        ctx_call_def split: option.splits pen_callback.splits)
qed (use assms in \<open>simp_all add: canvas_inv_def stopDrawing_def handleTouchEnd_def
      handleToolChange_def\<close>)

lemma step_ZoomIn: "step ZoomIn s = handleZoomIn s"
  by (simp add: step_def strokesEffect_eq handleZoomIn_def)

lemma step_ZoomOut: "step ZoomOut s = handleZoomOut s"
  by (simp add: step_def strokesEffect_eq handleZoomOut_def)

lemma canvas_inv_step: "canvas_inv s \<Longrightarrow> canvas_inv (step ev s)"
  using canvas_inv_handle [of s ev]
  by (simp add: step_def strokesEffect_eq canvas_inv_def)

lemma canvas_inv_initial: "canvas_inv (initial_state cv pageLog)"
  by (simp add: canvas_inv_def initial_state_def)

lemma canvas_inv_run: "canvas_inv s \<Longrightarrow> canvas_inv (run evs s)"
  by (induction evs arbitrary: s) (simp_all add: canvas_inv_step)

lemma zoomIn_funpow:
  "scale s \<le> 3 \<Longrightarrow> scale ((handleZoomIn ^^ n) s) = min (scale s + real n / 10) 3"
  by (induction n) (auto simp: handleZoomIn_def min_def field_simps)

lemma zoomOut_funpow:
  "1 / 2 \<le> scale s \<Longrightarrow>
   scale ((handleZoomOut ^^ n) s) = max (scale s - real n / 10) (1 / 2)"
  by (induction n) (auto simp: handleZoomOut_def max_def field_simps)

declare digits.simps [simp del]

lemma toString_sample: "toString 1700000000000 = ''1700000000000''"
  by (simp add: toString_def digits.simps)

lemma step_PenFeed_eq:
  "onNewStroke s = Some CanvasCallback \<Longrightarrow>
   step (PenFeed st) s =
     s\<lparr>strokes := strokes s @ [st],
       ctxLog := ctxLog s @ strokeCmds (canvasRef s) st
                 @ redrawCmds (canvasRef s) (strokes s @ [st])\<rparr>"
  by (simp add: step_def strokesEffect_eq penEmit_def penCallback_def addStroke_def
      drawStroke_total ctx_call_def)

lemma step_PenFeed_unregistered: "onNewStroke s = None \<Longrightarrow> step (PenFeed st) s = s"
  by (simp add: step_def strokesEffect_eq penEmit_def)

lemma mountEffect_registers:
  "canvasRef s = Some c \<Longrightarrow> ctx2d c \<Longrightarrow>
   onNewStroke (mountEffect container s) = Some CanvasCallback"
  by (simp add: mountEffect_def Let_def setOnNewStroke_def)

lemma step_Clear_eq:
  "step Clear s =
     (case canvasRef s of
        None \<Rightarrow> s
      | Some c \<Rightarrow>
          s\<lparr>strokes := [],
            ctxLog := ctxLog s @ redrawCmds (canvasRef s) (strokes s)
                      @ (if strokes s = [] then [] else redrawCmds (canvasRef s) [])\<rparr>)"
  by (simp add: step_def strokesEffect_eq handleClear_def clearStrokes_def redrawCanvas_eq
      ctx_call_def split: option.splits)

section \<open>The claims\<close>

text \<open>
  C1, as amended. Undoing \<open>n\<close> times and then redoing \<open>n\<close> times restores the stroke log and
  the redo stack exactly when \<open>n\<close> does not exceed the length of the log or the redo stack
  was empty: an undo on an empty log is a no-op, so the surplus redos draw from what the redo
  stack held before.
\<close>

theorem undo_redo_roundtrip:
  "(strokes ((step Redo ^^ n) ((step Undo ^^ n) s)) = strokes s \<and>
    redoStack ((step Redo ^^ n) ((step Undo ^^ n) s)) = redoStack s)
   \<longleftrightarrow> n \<le> length (strokes s) \<or> redoStack s = []"
  using undo_redo_h [of n "strokes s" "redoStack s"] hist_redos [of n "(step Undo ^^ n) s"]
    hist_undos [of n s]
  by (simp add: hist_def prod_eq_iff)

theorem undo_redo_roundtrip_witness:
  "2 \<le> length (strokes (initial_state (Some sample_surface)
                           [sample_stroke ''a'' 0, sample_stroke ''b'' 50])) \<and>
   strokes ((step Redo ^^ 2) ((step Undo ^^ 2) (initial_state (Some sample_surface)
              [sample_stroke ''a'' 0, sample_stroke ''b'' 50])))
     = [sample_stroke ''a'' 0, sample_stroke ''b'' 50] \<and>
   redoStack ((step Redo ^^ 2) ((step Undo ^^ 2) (initial_state (Some sample_surface)
              [sample_stroke ''a'' 0, sample_stroke ''b'' 50]))) = []"
  using undo_redo_roundtrip [of 2 "initial_state (Some sample_surface)
                                     [sample_stroke ''a'' 0, sample_stroke ''b'' 50]"]
  by (simp add: initial_state_def)

theorem undo_redo_roundtrip_counterexample:
  "strokes (step Undo (initial_state (Some sample_surface)
                         [sample_stroke ''a'' 0, sample_stroke ''b'' 50]))
     = [sample_stroke ''a'' 0] \<and>
   redoStack (step Undo (initial_state (Some sample_surface)
                           [sample_stroke ''a'' 0, sample_stroke ''b'' 50]))
     = [sample_stroke ''b'' 50] \<and>
   strokes ((step Redo ^^ 2) ((step Undo ^^ 2)
      (step Undo (initial_state (Some sample_surface)
                    [sample_stroke ''a'' 0, sample_stroke ''b'' 50]))))
     = [sample_stroke ''a'' 0, sample_stroke ''b'' 50]"
  by (simp add: numeral_2_eq_2 step_Undo_eq step_Redo_eq initial_state_def)

text \<open>
  C2. Undo is a no-op on an empty log (log and redo stack unchanged). On a non-empty log it
  removes exactly the last stroke and pushes that stroke onto the redo stack, so the log
  gets one shorter and the redo stack one longer, and a full redraw is triggered: the
  handler redraws from the log of its own render, and the re-render redraws from the new log.
\<close>

theorem undo_contract:
  "(strokes s = [] \<longrightarrow> handleUndo s = s \<and> step Undo s = s) \<and>
   (strokes s \<noteq> [] \<longrightarrow>
      strokes (step Undo s) = butlast (strokes s) \<and>
      redoStack (step Undo s) = redoStack s @ [last (strokes s)] \<and>
      length (strokes (step Undo s)) + 1 = length (strokes s) \<and>
      length (redoStack (step Undo s)) = length (redoStack s) + 1 \<and>
      (\<forall>c. canvasRef s = Some c \<and> ctx2d c \<longrightarrow>
         ctxLog (handleUndo s) = ctxLog s @ spec_fullRedraw c (strokes s) \<and>
         ctxLog (step Undo s) = ctxLog (handleUndo s) @ spec_fullRedraw c (butlast (strokes s))))"
  by (simp add: step_Undo_eq handleUndo_eq redrawCmds_def)

theorem undo_contract_witness:
  "strokes (step Undo (initial_state (Some sample_surface) [])) = [] \<and>
   redoStack (step Undo (initial_state (Some sample_surface) [])) = [] \<and>
   strokes (step Undo (initial_state (Some sample_surface)
                         [sample_stroke ''a'' 0, sample_stroke ''b'' 50]))
     = [sample_stroke ''a'' 0] \<and>
   redoStack (step Undo (initial_state (Some sample_surface)
                           [sample_stroke ''a'' 0, sample_stroke ''b'' 50]))
     = [sample_stroke ''b'' 50] \<and>
   ctxLog (step Undo (initial_state (Some sample_surface)
                        [sample_stroke ''a'' 0, sample_stroke ''b'' 50]))
     = spec_fullRedraw sample_surface [sample_stroke ''a'' 0, sample_stroke ''b'' 50]
       @ spec_fullRedraw sample_surface [sample_stroke ''a'' 0]"
  using undo_contract [of "initial_state (Some sample_surface) []"]
        undo_contract [of "initial_state (Some sample_surface)
                             [sample_stroke ''a'' 0, sample_stroke ''b'' 50]"]
  by (simp add: initial_state_def sample_surface_def)

text \<open>
  C3. Redo is a no-op on an empty redo stack. Otherwise it removes the top of the redo stack
  and appends that stroke to the end of the log, so the log gets one longer and the redo
  stack one shorter, and a full redraw is triggered.
\<close>

theorem redo_contract:
  "(redoStack s = [] \<longrightarrow> handleRedo s = s \<and> step Redo s = s) \<and>
   (redoStack s \<noteq> [] \<longrightarrow>
      strokes (step Redo s) = strokes s @ [last (redoStack s)] \<and>
      redoStack (step Redo s) = butlast (redoStack s) \<and>
      length (strokes (step Redo s)) = length (strokes s) + 1 \<and>
      length (redoStack (step Redo s)) + 1 = length (redoStack s) \<and>
      (\<forall>c. canvasRef s = Some c \<and> ctx2d c \<longrightarrow>
         ctxLog (handleRedo s) = ctxLog s @ spec_fullRedraw c (strokes s) \<and>
         ctxLog (step Redo s)
           = ctxLog (handleRedo s) @ spec_fullRedraw c (strokes s @ [last (redoStack s)])))"
  by (simp add: step_Redo_eq handleRedo_eq redrawCmds_def)

theorem redo_contract_witness:
  "strokes (step Redo (initial_state (Some sample_surface) [sample_stroke ''a'' 0])) 
     = [sample_stroke ''a'' 0] \<and>
   strokes (step Redo (step Undo (initial_state (Some sample_surface)
                         [sample_stroke ''a'' 0, sample_stroke ''b'' 50])))
     = [sample_stroke ''a'' 0, sample_stroke ''b'' 50] \<and>
   redoStack (step Redo (step Undo (initial_state (Some sample_surface)
                           [sample_stroke ''a'' 0, sample_stroke ''b'' 50])))
     = []"
  using redo_contract [of "initial_state (Some sample_surface) [sample_stroke ''a'' 0]"]
        redo_contract [of "step Undo (initial_state (Some sample_surface)
                             [sample_stroke ''a'' 0, sample_stroke ''b'' 50])"]
  by (simp add: initial_state_def step_Undo_eq)

text \<open>
  C8. On a mounted surface a full redraw issues, in this order: the clear to the background
  colour, the light gray ruling lines of width 1 at every multiple of 40 below the height,
  and the strokes of the log in log order. A stroke is drawn with round caps and joins as
  one path through its points, and a stroke of two points is exactly one segment.
\<close>

theorem full_redraw_steps:
  "(canvasRef s = Some c \<and> ctx2d c \<longrightarrow>
      redrawCanvas xs s =
        s\<lparr>ctxLog := ctxLog s
             @ [SetFillStyle ''#ffffff'',
                FillRect 0 0 (real (cv_width c)) (real (cv_height c)),
                SetStrokeStyle ''#e5e7eb'', SetLineWidth 1]
             @ concat (map (\<lambda>y. [BeginPath, MoveTo 0 (real y),
                                  LineTo (real (cv_width c)) (real y), Stroke])
                           (filter (\<lambda>y. 40 dvd y) [1..<cv_height c]))
             @ concat (map spec_strokePath xs)\<rparr>) \<and>
   (canvasRef s = Some c \<and> ctx2d c \<longrightarrow>
      drawStroke st s = s\<lparr>ctxLog := ctxLog s @ spec_strokePath st\<rparr>) \<and>
   (points st = p # ps \<longrightarrow>
      spec_strokePath st =
        [SetStrokeStyle (color st), SetLineWidth (width st),
         SetLineCap ''round'', SetLineJoin ''round'',
         BeginPath, MoveTo (pt_x p) (pt_y p)]
        @ map (\<lambda>q. LineTo (pt_x q) (pt_y q)) ps @ [Stroke]) \<and>
   (canvasRef s = Some c \<and> ctx2d c \<and> points st = [p, q] \<longrightarrow>
      drawStroke st s =
        s\<lparr>ctxLog := ctxLog s
             @ [SetStrokeStyle (color st), SetLineWidth (width st),
                SetLineCap ''round'', SetLineJoin ''round'',
                BeginPath, MoveTo (pt_x p) (pt_y p), LineTo (pt_x q) (pt_y q), Stroke]\<rparr>)"
  by (simp add: redrawCanvas_mounted drawStroke_eq ctx_call_def spec_fullRedraw_def
      spec_strokePath_def spec_gridLine_def [abs_def])

theorem full_redraw_steps_witness:
  "ctxLog (redrawCanvas [sample_stroke ''a'' 0] (initial_state (Some sample_surface) [])) =
     [SetFillStyle ''#ffffff'', FillRect 0 0 300 90,
      SetStrokeStyle ''#e5e7eb'', SetLineWidth 1,
      BeginPath, MoveTo 0 40, LineTo 300 40, Stroke,
      BeginPath, MoveTo 0 80, LineTo 300 80, Stroke,
      SetStrokeStyle ''#000000'', SetLineWidth 2, SetLineCap ''round'', SetLineJoin ''round'',
      BeginPath, MoveTo 0 10, LineTo 10 20, Stroke]"
proof -
  have ys: "filter (\<lambda>y. 40 dvd y) [Suc 0..<(90::nat)] = [40, 80]"
    by code_simp
  show ?thesis
    using full_redraw_steps [of "initial_state (Some sample_surface) []" sample_surface
        "[sample_stroke ''a'' 0]" "sample_stroke ''a'' 0"
        "\<lparr> pt_x = 0, pt_y = 10, pressure = 1, timestamp = 0 \<rparr>"
        "[\<lparr> pt_x = 10, pt_y = 20, pressure = 1, timestamp = 5 \<rparr>]"
        "\<lparr> pt_x = 10, pt_y = 20, pressure = 1, timestamp = 5 \<rparr>"]
    by (simp add: initial_state_def sample_surface_def sample_stroke_def ys)
qed

text \<open>
  C9. A zoom-in step adds 0.1 to the scale and a zoom-out step subtracts 0.1, saturating at
  3 and at 0.5. From a scale in the range, \<open>n\<close> steps give the clamped sum, each step stays
  in the range, and every state reached from the initial one has its scale in the range.
\<close>

theorem zoom_clamped:
  "scale (step ZoomIn s) = (if scale s + 1 / 10 \<le> 3 then scale s + 1 / 10 else 3) \<and>
   scale (step ZoomOut s) = (if 1 / 2 \<le> scale s - 1 / 10 then scale s - 1 / 10 else 1 / 2) \<and>
   (1 / 2 \<le> scale s \<and> scale s \<le> 3 \<longrightarrow>
      scale ((step ZoomIn ^^ n) s) = min (scale s + real n / 10) 3 \<and>
      scale ((step ZoomOut ^^ n) s) = max (scale s - real n / 10) (1 / 2) \<and>
      1 / 2 \<le> scale (step ZoomIn s) \<and> scale (step ZoomIn s) \<le> 3 \<and>
      1 / 2 \<le> scale (step ZoomOut s) \<and> scale (step ZoomOut s) \<le> 3) \<and>
   1 / 2 \<le> scale (run evs (initial_state cv pageLog)) \<and>
   scale (run evs (initial_state cv pageLog)) \<le> 3"
proof -
  have "canvas_inv (run evs (initial_state cv pageLog))"
    by (rule canvas_inv_run) (rule canvas_inv_initial)
  moreover have "step ZoomIn = handleZoomIn" "step ZoomOut = handleZoomOut"
    by (simp_all add: fun_eq_iff step_ZoomIn step_ZoomOut)
  ultimately show ?thesis
    by (simp add: zoomIn_funpow zoomOut_funpow canvas_inv_def)
      (simp add: handleZoomIn_def handleZoomOut_def min_def max_def)
qed

theorem zoom_clamped_witness:
  "scale (step ZoomIn (initial_state None [])) = 11 / 10 \<and>
   scale (step ZoomOut (initial_state None [])) = 9 / 10 \<and>
   scale ((step ZoomIn ^^ 25) (initial_state None [])) = 3 \<and>
   scale ((step ZoomOut ^^ 25) (initial_state None [])) = 1 / 2"
  using zoom_clamped [of "initial_state None []" 25 "[]" None "[]"]
  by (simp add: initial_state_def)

text \<open>
  C4. Clear on a page with one stroke in the log and one stroke on the redo stack: the log
  is emptied, the redo stack keeps its stroke, and a following redo puts that stroke on the
  cleared page. \<^verbatim>\<open>handleClear\<close> never resets the redo stack, which \<^verbatim>\<open>startDrawing\<close>,
  \<^verbatim>\<open>handleTouchStart\<close> and the page-change effect do.
\<close>

theorem clear_keeps_redo_stack:
  "strokes (step Clear (step Undo (initial_state (Some sample_surface)
              [sample_stroke ''a'' 0, sample_stroke ''b'' 50]))) = [] \<and>
   redoStack (step Clear (step Undo (initial_state (Some sample_surface)
              [sample_stroke ''a'' 0, sample_stroke ''b'' 50]))) = [sample_stroke ''b'' 50] \<and>
   strokes (step Redo (step Clear (step Undo (initial_state (Some sample_surface)
              [sample_stroke ''a'' 0, sample_stroke ''b'' 50])))) = [sample_stroke ''b'' 50]"
  by (simp add: step_Undo_eq step_Redo_eq step_Clear_eq initial_state_def)


text \<open>
  C5. On a mounted surface, in a state satisfying the viewport invariant, a mouse-down with
  a tool other than hand and a touch-start with the finger tool append one new stroke to
  the log and empty the redo stack. The stroke has a single point at
  \<open>(client - origin) / scale\<close> with pressure 1 and the first clock reading as timestamp; its
  colour is the background colour for the eraser and the active colour otherwise, its width
  three times the active width for the eraser and the active width otherwise. The scale is
  not zero there, so the quotient is the one JavaScript computes on exact numbers.
\<close>

theorem pointer_down_starts_stroke:
  assumes "canvasRef s = Some c" and "ctx2d c" and "canvas_inv s"
  shows
    "(tool s \<noteq> Hand \<longrightarrow>
        startDrawing e t1 t2 s =
          s\<lparr>ctxLog := ctxLog s @ [BeginPath, MoveTo ((clientX e - rect_left c) / scale s)
                                                    ((clientY e - rect_top c) / scale s)],
            strokes := strokes s @
              [\<lparr> points = [\<lparr> pt_x = (clientX e - rect_left c) / scale s,
                             pt_y = (clientY e - rect_top c) / scale s,
                             pressure = 1, timestamp = t1 \<rparr>],
                 color = (if tool s = Eraser then ''#ffffff'' else color_st s),
                 width = (if tool s = Eraser then 3 * lineWidth s else lineWidth s),
                 stroke_id = toString t2 \<rparr>],
            redoStack := [], isDrawing := True\<rparr>) \<and>
     (tool s = Finger \<longrightarrow>
        handleTouchStart e t1 t2 s =
          s\<lparr>ctxLog := ctxLog s @ [BeginPath, MoveTo ((clientX e - rect_left c) / scale s)
                                                    ((clientY e - rect_top c) / scale s)],
            strokes := strokes s @
              [\<lparr> points = [\<lparr> pt_x = (clientX e - rect_left c) / scale s,
                             pt_y = (clientY e - rect_top c) / scale s,
                             pressure = 1, timestamp = t1 \<rparr>],
                 color = (if tool s = Eraser then ''#ffffff'' else color_st s),
                 width = (if tool s = Eraser then 3 * lineWidth s else lineWidth s),
                 stroke_id = toString t2 \<rparr>],
            redoStack := [], isDrawing := True\<rparr>) \<and>
     scale s \<noteq> 0"
  using assms
  by (simp add: startDrawing_def handleTouchStart_def Let_def addStroke_def ctx_call_def
      canvas_inv_def)

theorem pointer_down_starts_stroke_witness:
  "strokes (startDrawing \<lparr> clientX = 28, clientY = 46 \<rparr> 1000 1001
              (handleZoomIn (handleToolChange Eraser (initial_state (Some sample_surface) []))))
   = [\<lparr> points = [\<lparr> pt_x = 200 / 11, pt_y = 300 / 11, pressure = 1, timestamp = 1000 \<rparr>],
        color = ''#ffffff'', width = 6, stroke_id = toString 1001 \<rparr>] \<and>
   strokes (handleTouchStart \<lparr> clientX = 28, clientY = 46 \<rparr> 1000 1001
              (handleToolChange Finger (initial_state (Some sample_surface) [])))
   = [\<lparr> points = [\<lparr> pt_x = 20, pt_y = 30, pressure = 1, timestamp = 1000 \<rparr>],
        color = ''#000000'', width = 2, stroke_id = toString 1001 \<rparr>]"
proof -
  have i1: "canvas_inv (handleZoomIn (handleToolChange Eraser
                          (initial_state (Some sample_surface) [])))"
    by (simp add: canvas_inv_def handleZoomIn_def handleToolChange_def initial_state_def)
  have i2: "canvas_inv (handleToolChange Finger (initial_state (Some sample_surface) []))"
    by (simp add: canvas_inv_def handleToolChange_def initial_state_def)
  have c1: "canvasRef (handleZoomIn (handleToolChange Eraser
                         (initial_state (Some sample_surface) []))) = Some sample_surface"
    by (simp add: handleZoomIn_def handleToolChange_def initial_state_def)
  have c2: "canvasRef (handleToolChange Finger (initial_state (Some sample_surface) []))
            = Some sample_surface"
    by (simp add: handleToolChange_def initial_state_def)
  have c: "ctx2d sample_surface"
    by (simp add: sample_surface_def)
  show ?thesis
    using pointer_down_starts_stroke [OF c1 c i1, of "\<lparr> clientX = 28, clientY = 46 \<rparr>" 1000 1001]
      pointer_down_starts_stroke [OF c2 c i2, of "\<lparr> clientX = 28, clientY = 46 \<rparr>" 1000 1001]
    by (simp add: handleZoomIn_def handleToolChange_def initial_state_def sample_surface_def)
qed

text \<open>
  C6, as amended. A mouse-down begins a stroke exactly when the tool is not hand (pen,
  eraser, and finger as well) and the surface is mounted; a touch-start begins a stroke
  exactly when the tool is finger and the surface is mounted; with the hand tool neither
  changes anything.
\<close>

theorem stroke_start_gating:
  "(strokes (startDrawing e t1 t2 s) \<noteq> strokes s
      \<longleftrightarrow> tool s \<noteq> Hand \<and> (\<exists>c. canvasRef s = Some c \<and> ctx2d c)) \<and>
   (strokes (handleTouchStart e t1 t2 s) \<noteq> strokes s
      \<longleftrightarrow> tool s = Finger \<and> (\<exists>c. canvasRef s = Some c \<and> ctx2d c)) \<and>
   length (strokes (startDrawing e t1 t2 s)) =
     (if tool s \<noteq> Hand \<and> (\<exists>c. canvasRef s = Some c \<and> ctx2d c)
      then length (strokes s) + 1 else length (strokes s)) \<and>
   length (strokes (handleTouchStart e t1 t2 s)) =
     (if tool s = Finger \<and> (\<exists>c. canvasRef s = Some c \<and> ctx2d c)
      then length (strokes s) + 1 else length (strokes s)) \<and>
   (tool s = Hand \<longrightarrow> startDrawing e t1 t2 s = s \<and> handleTouchStart e t1 t2 s = s)"
  by (auto simp: startDrawing_def handleTouchStart_def Let_def addStroke_def ctx_call_def
      split: option.splits)

theorem stroke_start_gating_witness:
  "length (strokes (startDrawing \<lparr> clientX = 28, clientY = 46 \<rparr> 1000 1001
             (handleToolChange Hand (initial_state (Some sample_surface) [])))) = 0 \<and>
   length (strokes (handleTouchStart \<lparr> clientX = 28, clientY = 46 \<rparr> 1000 1001
             (handleToolChange Hand (initial_state (Some sample_surface) [])))) = 0 \<and>
   length (strokes (startDrawing \<lparr> clientX = 28, clientY = 46 \<rparr> 1000 1001
             (initial_state (Some sample_surface) []))) = 1 \<and>
   length (strokes (handleTouchStart \<lparr> clientX = 28, clientY = 46 \<rparr> 1000 1001
             (initial_state (Some sample_surface) []))) = 0"
  using stroke_start_gating [of "\<lparr> clientX = 28, clientY = 46 \<rparr>" 1000 1001
          "handleToolChange Hand (initial_state (Some sample_surface) [])"]
        stroke_start_gating [of "\<lparr> clientX = 28, clientY = 46 \<rparr>" 1000 1001
          "initial_state (Some sample_surface) []"]
  by (simp add: handleToolChange_def initial_state_def sample_surface_def)

theorem stroke_start_gating_counterexample:
  "tool (handleToolChange Finger (initial_state (Some sample_surface) [])) \<noteq> Pen \<and>
   tool (handleToolChange Finger (initial_state (Some sample_surface) [])) \<noteq> Eraser \<and>
   length (strokes (startDrawing \<lparr> clientX = 28, clientY = 46 \<rparr> 1000 1001
             (handleToolChange Finger (initial_state (Some sample_surface) [])))) = 1 \<and>
   isDrawing (startDrawing \<lparr> clientX = 28, clientY = 46 \<rparr> 1000 1001
             (handleToolChange Finger (initial_state (Some sample_surface) [])))"
  by (simp add: startDrawing_def handleToolChange_def initial_state_def sample_surface_def
      Let_def addStroke_def ctx_call_def)

text \<open>
  C7. The pen callback appends the received stroke to the log exactly once: the log grows by
  that stroke at its end, and its number of occurrences grows by one. It draws the stroke,
  and the re-render redraws the whole log. The mount effect registers the callback on a
  mounted surface; the cleanup passes a null callback, after which a delivered stroke
  changes nothing.
\<close>

theorem pen_feed_append_once:
  "strokes (penCallback st s) = strokes s @ [st] \<and>
   (onNewStroke s = Some CanvasCallback \<longrightarrow>
      strokes (step (PenFeed st) s) = strokes s @ [st] \<and>
      count_list (strokes (step (PenFeed st) s)) st = count_list (strokes s) st + 1 \<and>
      redoStack (step (PenFeed st) s) = redoStack s \<and>
      (\<forall>c. canvasRef s = Some c \<and> ctx2d c \<longrightarrow>
         ctxLog (step (PenFeed st) s)
           = ctxLog s @ spec_strokePath st @ spec_fullRedraw c (strokes s @ [st]))) \<and>
   (\<forall>c. canvasRef s = Some c \<and> ctx2d c \<longrightarrow>
      onNewStroke (mountEffect container s) = Some CanvasCallback) \<and>
   cleanupEffect s = setOnNewStroke None s \<and>
   onNewStroke (cleanupEffect s) = None \<and>
   step (PenFeed st) (cleanupEffect s) = cleanupEffect s"
proof -
  have "onNewStroke (cleanupEffect s) = None"
    by (simp add: cleanupEffect_def setOnNewStroke_def)
  then show ?thesis
    by (simp add: step_PenFeed_eq step_PenFeed_unregistered mountEffect_registers
        strokeCmds_def redrawCmds_def cleanupEffect_def penCallback_def addStroke_def
        drawStroke_total ctx_call_def)
qed

theorem pen_feed_append_once_witness:
  "onNewStroke (mountEffect None (initial_state (Some sample_surface) [sample_stroke ''a'' 0]))
     = Some CanvasCallback \<and>
   strokes (step (PenFeed (sample_stroke ''p'' 70))
             (mountEffect None (initial_state (Some sample_surface) [sample_stroke ''a'' 0])))
     = [sample_stroke ''a'' 0, sample_stroke ''p'' 70]"
proof -
  have m: "onNewStroke (mountEffect None
             (initial_state (Some sample_surface) [sample_stroke ''a'' 0])) = Some CanvasCallback"
    using pen_feed_append_once [where s = "initial_state (Some sample_surface)
        [sample_stroke ''a'' 0]" and st = "sample_stroke ''p'' 70" and container = None]
    by (simp add: initial_state_def sample_surface_def)
  have s: "strokes (mountEffect None
             (initial_state (Some sample_surface) [sample_stroke ''a'' 0]))
           = [sample_stroke ''a'' 0]"
    by (simp add: mountEffect_def initial_state_def sample_surface_def Let_def
        resizeCanvas_def redrawCanvas_eq ctx_call_def setOnNewStroke_def)
  show ?thesis
    using m s pen_feed_append_once [where s = "mountEffect None
        (initial_state (Some sample_surface) [sample_stroke ''a'' 0])"
        and st = "sample_stroke ''p'' 70"]
    by simp
qed

text \<open>
  C10. Two mouse-down events handled at the same clock reading: the log holds two different
  strokes with the same id, the decimal form of that reading.
\<close>

theorem same_clock_same_id:
  "map stroke_id (strokes (run [MouseDown \<lparr> clientX = 28, clientY = 46 \<rparr>
                                  1700000000000 1700000000000,
                                MouseUp,
                                MouseDown \<lparr> clientX = 68, clientY = 86 \<rparr>
                                  1700000000000 1700000000000,
                                MouseUp]
                           (initial_state (Some sample_surface) [])))
   = [''1700000000000'', ''1700000000000''] \<and>
   distinct (strokes (run [MouseDown \<lparr> clientX = 28, clientY = 46 \<rparr>
                                  1700000000000 1700000000000,
                                MouseUp,
                                MouseDown \<lparr> clientX = 68, clientY = 86 \<rparr>
                                  1700000000000 1700000000000,
                                MouseUp]
                           (initial_state (Some sample_surface) [])))"
  by (simp add: step_def strokesEffect_eq startDrawing_def stopDrawing_def Let_def
      addStroke_def ctx_call_def initial_state_def sample_surface_def toString_sample)

end
